theory Spec2Isabelle
  imports Complex_Main
begin

section \<open>The ISDS205B model specification (modelISDS205b.cpp)\<close>

text \<open>
  The C++ fields of type \<open>double\<close> are modelled as \<open>real\<close>: every literal of the
  table is taken at its decimal value (\<open>20e-3\<close> is \<open>20 / 1000\<close>, \<open>100e3\<close> is \<open>100000\<close>).
  Rounding a decimal literal to the nearest double is monotone, so the order of two
  literals is the order of their decimal values. Unsigned fields are \<open>nat\<close>.
\<close>

datatype Coupling = DC | AC

datatype TriggerMode = AUTO | NORMAL | SINGLE | ROLL

text \<open>One gain step \<open>{ HW gain, V/div }\<close>: the hardware gain id and the volts per division.\<close>

type_synonym GainStep = "nat \<times> real"

text \<open>One entry \<open>{ samplerate, sampleId, downsampling }\<close> of \<open>fixedSampleRates\<close>.\<close>

record FixedSampleRate =
  rate :: real
  sampleId :: nat
  downsampling :: nat

record ControlSamplerateLimits =
  base :: real
  max_rate :: real
  recordLengths :: "nat list"

record ControlSpecificationSamplerate =
  single :: ControlSamplerateLimits
  multi :: ControlSamplerateLimits

record ControlSpecification =
  channels :: nat
  gain :: "GainStep list"
  voltageScale :: "real list list"
  samplerate :: ControlSpecificationSamplerate
  fixedSampleRates :: "FixedSampleRate list"
  couplings :: "Coupling list"
  hasACcoupling :: bool
  triggerModes :: "TriggerMode list"
  fixedUSBinLength :: nat
  calfreqSteps :: "nat list"
  hasCalibrationEEPROM :: bool

definition UINT_MAX :: nat where
  "UINT_MAX = 4294967295"

text \<open>
  \<open>initSpecifications\<close> assigns the fields of the specification it is given, one after the
  other, and returns nothing else: it has no check, no early return and no error path.
  The two assignments \<open>voltageScale[0] = ...\<close> and \<open>voltageScale[1] = ...\<close> index a vector
  that the caller sized; they are list updates here, and the theorems that read the rows
  ask for at least two rows (outside that range the C++ is undefined).
\<close>

definition initSpecifications :: "ControlSpecification \<Rightarrow> ControlSpecification" where
  "initSpecifications specification =
     specification
       \<lparr> gain := [ (10, 20 / 1000), (10, 50 / 1000), (10, 100 / 1000), (5, 200 / 1000),
                   (2, 500 / 1000), (1, 1), (1, 2), (1, 5) ],
         voltageScale := (voltageScale specification)
                           [ 0 := [ 1276, 1276, 1276, 90, 37, 43 / 2, 43 / 2, 43 / 2 ],
                             1 := [ 1276, 1276, 1276, 90, 37, 43 / 2, 43 / 2, 43 / 2 ] ],
         samplerate := (samplerate specification)
                         \<lparr> single := (single (samplerate specification))
                                       \<lparr> base := 1000000, max_rate := 30000000,
                                         recordLengths := [ UINT_MAX ] \<rparr>,
                           multi := (multi (samplerate specification))
                                      \<lparr> base := 1000000, max_rate := 15000000,
                                        recordLengths := [ UINT_MAX ] \<rparr> \<rparr>,
         fixedSampleRates :=
           [ \<lparr> rate = 100000, sampleId = 10, downsampling = 1 \<rparr>,
             \<lparr> rate = 200000, sampleId = 20, downsampling = 1 \<rparr>,
             \<lparr> rate = 500000, sampleId = 50, downsampling = 1 \<rparr>,
             \<lparr> rate = 1000000, sampleId = 1, downsampling = 1 \<rparr>,
             \<lparr> rate = 2000000, sampleId = 8, downsampling = 4 \<rparr>,
             \<lparr> rate = 7000000, sampleId = 24, downsampling = 3 \<rparr>,
             \<lparr> rate = 4000000, sampleId = 4, downsampling = 1 \<rparr>,
             \<lparr> rate = 8000000, sampleId = 8, downsampling = 1 \<rparr>,
             \<lparr> rate = 16000000, sampleId = 16, downsampling = 1 \<rparr>,
             \<lparr> rate = 24000000, sampleId = 24, downsampling = 1 \<rparr>,
             \<lparr> rate = 30000000, sampleId = 30, downsampling = 1 \<rparr>,
             \<lparr> rate = 48000000, sampleId = 48, downsampling = 1 \<rparr> ],
         couplings := [ DC, AC ],
         hasACcoupling := True,
         triggerModes := [ AUTO, NORMAL, SINGLE, ROLL ],
         fixedUSBinLength := 0,
         calfreqSteps := [ 100, 1000, 10000, 25000 ],
         hasCalibrationEEPROM := False \<rparr>"

text \<open>
  The raw sample rates the device can capture at, as the comment above the sample-rate
  block of \<open>initSpecifications\<close> lists them:
  20k, 40k, 50k, 64k, 100k, 200k, 400k, 500k, 1M, 2M, 3M, 4M, 5M, 6M, 8M, 10M, 12M, 15M,
  16M, 24M, 30M (, 48M).
\<close>

definition rawSampleRates :: "real list" where
  "rawSampleRates =
     [ 20000, 40000, 50000, 64000, 100000, 200000, 400000, 500000, 1000000, 2000000,
       3000000, 4000000, 5000000, 6000000, 8000000, 10000000, 12000000, 15000000,
       16000000, 24000000, 30000000, 48000000 ]"

text \<open>
  A specification with one empty voltage-scale row per channel and every other table
  empty: a concrete input for \<open>initSpecifications\<close>, as the model's constructor passes
  \<open>Dso::ControlSpecification( 2 )\<close>.
\<close>

definition emptySpecification :: "nat \<Rightarrow> ControlSpecification" where
  "emptySpecification n =
     \<lparr> channels = n, gain = [], voltageScale = replicate n [],
       samplerate = \<lparr> single = \<lparr> base = 0, max_rate = 0, recordLengths = [] \<rparr>,
                      multi = \<lparr> base = 0, max_rate = 0, recordLengths = [] \<rparr> \<rparr>,
       fixedSampleRates = [], couplings = [], hasACcoupling = False, triggerModes = [],
       fixedUSBinLength = 0, calfreqSteps = [], hasCalibrationEEPROM = False \<rparr>"

section \<open>The control commands of the ISDS205B (modelISDS205b.cpp)\<close>

datatype ControlCommand =
    ControlSetGain_CH1
  | ControlSetGain_CH2
  | ControlSetSamplerate
  | ControlStartSampling
  | ControlSetNumChannels
  | ControlSetCoupling
  | ControlSetCalFreq

text \<open>The command codes, as the comment beside each \<open>addCommand\<close> call gives them (0xE0 to 0xE6).\<close>

fun commandCode :: "ControlCommand \<Rightarrow> nat" where
  "commandCode ControlSetGain_CH1 = 224"
| "commandCode ControlSetGain_CH2 = 225"
| "commandCode ControlSetSamplerate = 226"
| "commandCode ControlStartSampling = 227"
| "commandCode ControlSetNumChannels = 228"
| "commandCode ControlSetCoupling = 229"
| "commandCode ControlSetCalFreq = 230"

text \<open>
  \<open>ModelISDS205B::applyRequirements\<close> is the static function \<open>applyRequirements_\<close> (a
  name cannot end in an underscore here), which calls \<open>dsoControl->addCommand\<close> seven
  times. \<open>addCommand\<close> belongs to \<open>HantekDsoControl\<close>, which is not part of the two source
  files: it is a parameter here, applied to the control object in the order of the calls.
\<close>

definition applyRequirements :: "(ControlCommand \<Rightarrow> 'dso \<Rightarrow> 'dso) \<Rightarrow> 'dso \<Rightarrow> 'dso" where
  "applyRequirements addCommand dsoControl =
     (let dsoControl = addCommand ControlSetGain_CH1 dsoControl;
          dsoControl = addCommand ControlSetGain_CH2 dsoControl;
          dsoControl = addCommand ControlSetSamplerate dsoControl;
          dsoControl = addCommand ControlStartSampling dsoControl;
          dsoControl = addCommand ControlSetNumChannels dsoControl;
          dsoControl = addCommand ControlSetCoupling dsoControl;
          dsoControl = addCommand ControlSetCalFreq dsoControl
      in dsoControl)"

text \<open>The sequence of \<open>addCommand\<close> calls: each call is written at the end of the log.\<close>

definition logAddCommand :: "ControlCommand \<Rightarrow> ControlCommand list \<Rightarrow> ControlCommand list" where
  "logAddCommand command calls = calls @ [command]"

section \<open>Start and shutdown of the program (main.cpp)\<close>

text \<open>
  \<open>main\<close> is modelled by the sequence of the calls it makes on the USB library, the
  device, the threads and the processing chain, and by the local variables that decide
  its branches. What the outside world answers (command line, \<open>libusb_init\<close>, the device
  selection dialog, the GUI loop, the getters of \<open>dsoControl\<close>) is the environment.
\<close>

record ScopeDevice =
  isDemoDevice :: bool
  connectDevice :: bool

datatype libusb_context = Libusb_context

datatype Processor = SamplesToExportRaw | MathchannelGenerator | SpectrumGenerator | GraphGenerator

datatype Action =
    Libusb_init
  | Libusb_setlocale
  | Libusb_exit
  | ShowLibUSBFailedDialogModel
  | ShowSelectDeviceModal
  | ConnectDevice
  | NewScopeDevice
  | CreateDsoControl
  | CreateSettings
  | CreateExporters
  | CreatePostProcessing
  | RegisterProcessor Processor
  | CreateMainWindow
  | EnableSampling
  | PostProcessingThread_start
  | DsoControlThread_start
  | Capturing_start
  | Exec
  | QuitSampling
  | Capturing_requestInterruption
  | Capturing_wait nat
  | DsoControlThread_quit
  | DsoControlThread_wait nat
  | PostProcessing_stop
  | PostProcessingThread_quit
  | PostProcessingThread_wait nat
  | ScopeDevice_reset

record Environment =
  demoModeOption :: bool
  intOption :: bool
  libusb_init_error :: int
  selectedDevice :: "ScopeDevice option"
  newScopeDevice :: ScopeDevice
  appStatus :: int
  getSamplesize :: nat
  getSamplerate :: real

text \<open>
  The local variables of \<open>main\<close> that the device search sets: \<open>demoMode\<close>, the libusb
  \<open>context\<close> (\<open>None\<close> is \<open>nullptr\<close>) and \<open>scopeDevice\<close> (\<open>None\<close> is a null pointer), with
  the calls made so far.
\<close>

record Locals =
  demoMode :: bool
  usbContext :: "libusb_context option"
  scopeDevice :: "ScopeDevice option"
  trace :: "Action list"

text \<open>
  "Find matching usb devices": \<open>Inl\<close> is \<open>return -1\<close> with the calls made, \<open>Inr\<close> the
  locals with which \<open>main\<close> goes on. \<open>useLocale\<close> is \<open>!p.isSet( intOption )\<close>.
\<close>

definition findDevice :: "Environment \<Rightarrow> (int \<times> Action list) + Locals" where
  "findDevice env =
     (if \<not> demoModeOption env then
        (if libusb_init_error env \<noteq> 0 then
           Inl (- 1, [ Libusb_init, ShowLibUSBFailedDialogModel ])
         else
           (let calls = [ Libusb_init ]
                        @ (if \<not> intOption env then [ Libusb_setlocale ] else [])
                        @ [ ShowSelectDeviceModal ]
            in case selectedDevice env of
                 None \<Rightarrow> Inl (- 1, calls @ [ Libusb_exit ])
               | Some device \<Rightarrow>
                   if isDemoDevice device then
                     Inr \<lparr> demoMode = True, usbContext = None, scopeDevice = Some device,
                           trace = calls @ [ Libusb_exit ] \<rparr>
                   else if \<not> connectDevice device then
                     Inl (- 1, calls @ [ ConnectDevice, Libusb_exit ])
                   else
                     Inr \<lparr> demoMode = False, usbContext = Some Libusb_context,
                           scopeDevice = Some device, trace = calls @ [ ConnectDevice ] \<rparr>))
      else
        Inr \<lparr> demoMode = True, usbContext = None, scopeDevice = Some (newScopeDevice env),
              trace = [ NewScopeDevice ] \<rparr>)"

text \<open>
  From "Create DSO control object" to the GUI main loop: straight-line code, with no
  branch on \<open>demoMode\<close> and no return.
\<close>

definition createAndRun :: "Locals \<Rightarrow> Locals" where
  "createAndRun locals =
     locals \<lparr> trace := trace locals
                @ [ CreateDsoControl, CreateSettings, CreateExporters, CreatePostProcessing,
                    RegisterProcessor SamplesToExportRaw,
                    RegisterProcessor MathchannelGenerator,
                    RegisterProcessor SpectrumGenerator,
                    RegisterProcessor GraphGenerator,
                    CreateMainWindow, EnableSampling, PostProcessingThread_start,
                    DsoControlThread_start, Capturing_start, Exec ] \<rparr>"

text \<open>
  The quotient of the shutdown wait is a division of two \<open>double\<close>s: the real quotient
  rounded to the nearest binary64 value, ties to the even significand. A double with
  \<open>2^e \<le> |x| < 2^(e+1)\<close> lies on the grid of step \<open>2^(e-52)\<close>; below \<open>2^(-1022)\<close> the
  step stays \<open>2^(-1074)\<close> (subnormal numbers). \<open>binade x\<close> is that exponent \<open>e\<close>, found
  by halving (from 1 up) or doubling (below 1, down to \<open>-1022\<close>).
\<close>

function exponentUp :: "real \<Rightarrow> int" where
  "exponentUp x = (if x < 2 then 0 else 1 + exponentUp (x / 2))"
  by pat_completeness auto
termination
proof (relation "measure (\<lambda>x. nat \<lceil>x\<rceil>)")
  show "wf (measure (\<lambda>x. nat \<lceil>x\<rceil>))"
    by simp
next
  fix x :: real
  assume large: "\<not> x < 2"
  then have "x / 2 \<le> x - 1"
    by simp
  then have "\<lceil>x / 2\<rceil> \<le> \<lceil>x - 1\<rceil>"
    by (rule ceiling_mono)
  moreover have "\<lceil>x - 1\<rceil> = \<lceil>x\<rceil> - 1"
    by simp
  moreover from large have "0 < \<lceil>x\<rceil>"
    by simp
  ultimately show "(x / 2, x) \<in> measure (\<lambda>x. nat \<lceil>x\<rceil>)"
    by simp
qed

function exponentDown :: "int \<Rightarrow> real \<Rightarrow> int" where
  "exponentDown e x = (if 1 \<le> x \<or> e \<le> - 1022 then e else exponentDown (e - 1) (2 * x))"
  by pat_completeness auto
termination
  by (relation "measure (\<lambda>(e, x). nat (e + 1022))") auto

declare exponentUp.simps [simp del]

declare exponentDown.simps [simp del]

definition binade :: "real \<Rightarrow> int" where
  "binade x = (if 1 \<le> \<bar>x\<bar> then exponentUp \<bar>x\<bar> else exponentDown 0 \<bar>x\<bar>)"

text \<open>The step of the binary64 grid in the binade of exponent \<open>e\<close>: \<open>2^(e-52)\<close>.\<close>

definition ulp :: "int \<Rightarrow> real" where
  "ulp e = (if 52 \<le> e then 2 ^ nat (e - 52) else 1 / 2 ^ nat (52 - e))"

text \<open>Rounding to the nearest integer, a tie going to the even one.\<close>

definition roundEven :: "real \<Rightarrow> int" where
  "roundEven x =
     (if x - of_int \<lfloor>x\<rfloor> < 1 / 2 then \<lfloor>x\<rfloor>
      else if 1 / 2 < x - of_int \<lfloor>x\<rfloor> then \<lfloor>x\<rfloor> + 1
      else if even \<lfloor>x\<rfloor> then \<lfloor>x\<rfloor> else \<lfloor>x\<rfloor> + 1)"

text \<open>
  The binary64 value nearest to a real. A result of \<open>2^1024\<close> or more stands for the
  overflow to infinity; the only use below treats every result from \<open>2^32\<close> on alike.
\<close>

definition roundToDouble :: "real \<Rightarrow> real" where
  "roundToDouble x =
     (if x = 0 then 0
      else sgn x * (of_int (roundEven (\<bar>x\<bar> / ulp (binade x))) * ulp (binade x)))"

text \<open>
  \<open>unsigned( 2000 * getSamplesize() / getSamplerate() )\<close>, then \<open>qMax( waitForDso, 10000U )\<close>.
  The two getters belong to \<open>HantekDsoControl\<close>, outside the two source files: their
  values are parameters, an unsigned sample size and a (finite) \<open>double\<close> sample rate.
  The product is taken in 32-bit unsigned arithmetic and wraps around at \<open>2^32\<close>; it is
  converted to \<open>double\<close> without loss; the quotient is the \<open>double\<close> division, that is the
  real quotient rounded to binary64; the conversion to \<open>unsigned\<close> truncates towards zero.
  Where the rounded quotient is not a value that \<open>unsigned\<close> can hold after truncation (a
  zero sample rate, a quotient of \<open>-1\<close> or less or of \<open>2^32\<close> or more) the C++ conversion
  is undefined: \<open>None\<close>.
\<close>

definition waitForDso :: "nat \<Rightarrow> real \<Rightarrow> nat option" where
  "waitForDso dsoSamplesize dsoSamplerate =
     (if dsoSamplerate = 0 then None
      else
        (let quotient =
               roundToDouble (real ((2000 * dsoSamplesize) mod 2 ^ 32) / dsoSamplerate)
         in if quotient \<le> - 1 \<or> 2 ^ 32 \<le> quotient then None
            else Some (max (nat \<lfloor>quotient\<rfloor>) 10000)))"

text \<open>"Application closed, clean up step by step": the calls of the shutdown, in order.\<close>

definition cleanUp :: "nat \<Rightarrow> real \<Rightarrow> Locals \<Rightarrow> Action list option" where
  "cleanUp dsoSamplesize dsoSamplerate locals =
     (case waitForDso dsoSamplesize dsoSamplerate of
        None \<Rightarrow> None
      | Some wait \<Rightarrow>
          Some ([ QuitSampling,
                  Capturing_requestInterruption, Capturing_wait wait,
                  DsoControlThread_quit, DsoControlThread_wait wait,
                  PostProcessing_stop, PostProcessingThread_quit,
                  PostProcessingThread_wait 10000 ]
                @ (if scopeDevice locals \<noteq> None then [ ScopeDevice_reset ] else [])
                @ (if usbContext locals \<noteq> None then [ Libusb_exit ] else [])))"

text \<open>The whole of \<open>main\<close>: the value it returns and the calls it has made.\<close>

definition main :: "Environment \<Rightarrow> (int \<times> Action list) option" where
  "main env =
     (case findDevice env of
        Inl failed \<Rightarrow> Some failed
      | Inr locals \<Rightarrow>
          (case cleanUp (getSamplesize env) (getSamplerate env) (createAndRun locals) of
             None \<Rightarrow> None
           | Some calls \<Rightarrow> Some (appStatus env, trace (createAndRun locals) @ calls)))"

text \<open>
  \<open>precedes a b calls\<close>: \<open>a\<close> and \<open>b\<close> both occur in \<open>calls\<close>, and every occurrence of \<open>a\<close>
  lies before the first occurrence of \<open>b\<close>.
\<close>

definition precedes :: "'a \<Rightarrow> 'a \<Rightarrow> 'a list \<Rightarrow> bool" where
  "precedes a b calls \<longleftrightarrow>
     a \<in> set (takeWhile (\<lambda>x. x \<noteq> b) calls) \<and> b \<in> set calls
     \<and> a \<notin> set (dropWhile (\<lambda>x. x \<noteq> b) calls)"

text \<open>The calls that go to the USB library.\<close>

fun libusbCall :: "Action \<Rightarrow> bool" where
  "libusbCall Libusb_init = True"
| "libusbCall Libusb_setlocale = True"
| "libusbCall Libusb_exit = True"
| "libusbCall _ = False"

text \<open>
  An environment in which no demo mode is asked for on the command line, libusb starts,
  and the selection dialog gives back a demo device; at shutdown the record is 20000
  samples at 100 S/s (200 s).
\<close>

definition selectedDemoEnvironment :: Environment where
  "selectedDemoEnvironment =
     \<lparr> demoModeOption = False, intOption = False, libusb_init_error = 0,
       selectedDevice = Some \<lparr> isDemoDevice = True, connectDevice = False \<rparr>,
       newScopeDevice = \<lparr> isDemoDevice = True, connectDevice = False \<rparr>,
       appStatus = 0, getSamplesize = 20000, getSamplerate = 100 \<rparr>"

section \<open>Properties of the specification\<close>

lemma gain_initSpecifications:
  "gain (initSpecifications specification) =
     [ (10, 20 / 1000), (10, 50 / 1000), (10, 100 / 1000), (5, 200 / 1000),
       (2, 500 / 1000), (1, 1), (1, 2), (1, 5) ]"
  by (simp add: initSpecifications_def)

lemma voltageScale_initSpecifications:
  "voltageScale (initSpecifications specification) =
     (voltageScale specification)
       [ 0 := [ 1276, 1276, 1276, 90, 37, 43 / 2, 43 / 2, 43 / 2 ],
         1 := [ 1276, 1276, 1276, 90, 37, 43 / 2, 43 / 2, 43 / 2 ] ]"
  by (simp add: initSpecifications_def)

lemma rates_initSpecifications:
  "map rate (fixedSampleRates (initSpecifications specification)) =
     [ 100000, 200000, 500000, 1000000, 2000000, 7000000, 4000000, 8000000, 16000000,
       24000000, 30000000, 48000000 ]"
  by (simp add: initSpecifications_def)

lemma length_fixedSampleRates:
  "length (fixedSampleRates (initSpecifications specification)) = 12"
  by (simp add: initSpecifications_def)

lemma voltageScale_row:
  assumes "2 \<le> length (voltageScale specification)" and "channel < 2"
  shows "voltageScale (initSpecifications specification) ! channel
           = [ 1276, 1276, 1276, 90, 37, 43 / 2, 43 / 2, 43 / 2 ]"
proof -
  from assms(2) consider "channel = 0" | "channel = 1"
    by linarith
  then show ?thesis
  proof cases
    case 1
    moreover from assms(1) have "0 < length (voltageScale specification)"
      by linarith
    ultimately show ?thesis
      by (simp add: voltageScale_initSpecifications nth_list_update)
  next
    case 2
    moreover from assms(1) have "1 < length (voltageScale specification)"
      by linarith
    ultimately show ?thesis
      by (simp add: voltageScale_initSpecifications nth_list_update)
  qed
qed

text \<open>
  C4. For the ISDS205B specification and for every channel (0 and 1), the gain table and
  that channel's voltage-scale table have the same length, namely 8 entries.
\<close>

theorem gain_voltageScale_same_length:
  assumes "2 \<le> length (voltageScale specification)"
  shows "\<forall>channel<2.
           length (voltageScale (initSpecifications specification) ! channel)
             = length (gain (initSpecifications specification))
         \<and> length (voltageScale (initSpecifications specification) ! channel) = 8"
  using assms by (simp add: voltageScale_row gain_initSpecifications)

theorem gain_voltageScale_same_length_witness:
  "2 \<le> length (voltageScale (emptySpecification 2))
   \<and> length (voltageScale (initSpecifications (emptySpecification 2)) ! 1)
       = length (gain (initSpecifications (emptySpecification 2)))
   \<and> length (voltageScale (initSpecifications (emptySpecification 2)) ! 1) = 8"
proof -
  have h: "2 \<le> length (voltageScale (emptySpecification 2))"
    by (simp add: emptySpecification_def)
  have "(1::nat) < 2"
    by simp
  with gain_voltageScale_same_length [OF h] h show ?thesis
    by blast
qed


text \<open>
  C8. The gain table is a list of (hardware gain id, volts per division) pairs in
  ascending order of volts per division: for all indices \<open>i < j\<close> of the table, the volts
  per division of entry \<open>i\<close> is at most that of entry \<open>j\<close>.
\<close>

theorem gain_ascending_by_volts_per_division:
  "\<forall>i j. i < j \<and> j < length (gain (initSpecifications specification))
      \<longrightarrow> snd (gain (initSpecifications specification) ! i)
            \<le> snd (gain (initSpecifications specification) ! j)"
proof (intro allI impI)
  fix i j :: nat
  let ?g = "gain (initSpecifications specification)"
  assume ij: "i < j \<and> j < length ?g"
  have "sorted (map snd ?g)"
    by (simp add: gain_initSpecifications)
  moreover from ij have "i \<le> j" and "j < length (map snd ?g)"
    by simp_all
  ultimately have "map snd ?g ! i \<le> map snd ?g ! j"
    by (rule sorted_nth_mono)
  with ij show "snd (?g ! i) \<le> snd (?g ! j)"
    by simp
qed

theorem gain_ascending_by_volts_per_division_witness:
  "(2::nat) < 5 \<and> 5 < length (gain (initSpecifications (emptySpecification 2)))
   \<and> snd (gain (initSpecifications (emptySpecification 2)) ! 2)
       \<le> snd (gain (initSpecifications (emptySpecification 2)) ! 5)"
proof -
  have h: "(2::nat) < 5 \<and> 5 < length (gain (initSpecifications (emptySpecification 2)))"
    by (simp add: gain_initSpecifications)
  with gain_ascending_by_volts_per_division [of "emptySpecification 2"] show ?thesis
    by blast
qed

text \<open>
  C10. The fixed sample rates are not bounded by the declared maxima: the entries for
  24 MS/s, 30 MS/s and 48 MS/s are in the list and exceed \<open>samplerate.multi.max\<close>
  (15 MS/s), and one entry, 48 MS/s, exceeds \<open>samplerate.single.max\<close> (30 MS/s) too.
  The last two conjuncts give the exact sets: above the multi-channel maximum lie the
  rates 16, 24, 30 and 48 MS/s, above the single-channel maximum 48 MS/s alone.
\<close>

theorem fixedSampleRates_exceed_declared_maxima:
  "max_rate (multi (samplerate (initSpecifications specification))) = 15000000
   \<and> max_rate (single (samplerate (initSpecifications specification))) = 30000000
   \<and> \<lparr> rate = 24000000, sampleId = 24, downsampling = 1 \<rparr>
         \<in> set (fixedSampleRates (initSpecifications specification))
   \<and> \<lparr> rate = 30000000, sampleId = 30, downsampling = 1 \<rparr>
         \<in> set (fixedSampleRates (initSpecifications specification))
   \<and> \<lparr> rate = 48000000, sampleId = 48, downsampling = 1 \<rparr>
         \<in> set (fixedSampleRates (initSpecifications specification))
   \<and> max_rate (multi (samplerate (initSpecifications specification))) < 24000000
   \<and> max_rate (single (samplerate (initSpecifications specification))) < 48000000
   \<and> map rate
        (filter (\<lambda>e. max_rate (multi (samplerate (initSpecifications specification))) < rate e)
           (fixedSampleRates (initSpecifications specification)))
       = [ 16000000, 24000000, 30000000, 48000000 ]
   \<and> map rate
        (filter (\<lambda>e. max_rate (single (samplerate (initSpecifications specification))) < rate e)
           (fixedSampleRates (initSpecifications specification)))
       = [ 48000000 ]"
  by (simp add: initSpecifications_def)

text \<open>
  C1, as the specification states it, fails on the table: the entry at index 5 has rate
  7 MS/s and the entry after it 4 MS/s, so the list is not sorted ascending by rate; and
  \<open>initSpecifications\<close> has returned this list, it has not failed.
\<close>

theorem fixedSampleRates_sorted_counterexample:
  "rate (fixedSampleRates (initSpecifications (emptySpecification 2)) ! 6)
     < rate (fixedSampleRates (initSpecifications (emptySpecification 2)) ! 5)
   \<and> \<not> sorted (map rate (fixedSampleRates (initSpecifications (emptySpecification 2))))"
  by (simp add: initSpecifications_def)

text \<open>
  C1, amended. For a specification with at least two voltage-scale rows (the rows that
  \<open>initSpecifications\<close> writes; the model's constructor passes a two-channel
  specification), the fixed sample rates that \<open>initSpecifications\<close> builds are, with the
  entry at index 5 set aside, in strictly ascending order of rate. \<open>initSpecifications\<close>
  does not validate the list: every such specification comes back with the same twelve
  entries.
\<close>

theorem fixedSampleRates_sorted_apart_from_entry_5:
  assumes "2 \<le> length (voltageScale specification)"
  shows "sorted_wrt (<)
           (map rate (take 5 (fixedSampleRates (initSpecifications specification))
                      @ drop 6 (fixedSampleRates (initSpecifications specification))))
         \<and> length (fixedSampleRates (initSpecifications specification)) = 12
         \<and> fixedSampleRates (initSpecifications specification)
             = fixedSampleRates (initSpecifications (emptySpecification 2))"
  by (simp add: initSpecifications_def)

theorem fixedSampleRates_sorted_apart_from_entry_5_witness:
  "2 \<le> length (voltageScale (emptySpecification 2))
   \<and> map rate (take 5 (fixedSampleRates (initSpecifications (emptySpecification 2)))
                @ drop 6 (fixedSampleRates (initSpecifications (emptySpecification 2))))
       = [ 100000, 200000, 500000, 1000000, 2000000, 4000000, 8000000, 16000000,
           24000000, 30000000, 48000000 ]
   \<and> sorted_wrt (<)
        (map rate (take 5 (fixedSampleRates (initSpecifications (emptySpecification 2)))
                   @ drop 6 (fixedSampleRates (initSpecifications (emptySpecification 2)))))"
proof -
  have h: "2 \<le> length (voltageScale (emptySpecification 2))"
    by (simp add: emptySpecification_def)
  have "map rate (take 5 (fixedSampleRates (initSpecifications (emptySpecification 2)))
                  @ drop 6 (fixedSampleRates (initSpecifications (emptySpecification 2))))
          = [ 100000, 200000, 500000, 1000000, 2000000, 4000000, 8000000, 16000000,
              24000000, 30000000, 48000000 ]"
    by (simp add: initSpecifications_def)
  with fixedSampleRates_sorted_apart_from_entry_5 [OF h] h show ?thesis
    by blast
qed

text \<open>
  C2 at the entry of index 5, \<open>{ 7e6, 24, 3 }\<close>, which the source comments as
  "3x downsampling from 24 MS/s": its rate divided by its downsampling factor is not an
  integer, and neither that quotient nor the product 21 MS/s is a raw sample rate of
  the device (3 times the rate is not the 24 MS/s the comment and the sample id name).
\<close>

theorem fixedSampleRates_entry_5_no_raw_rate:
  "fixedSampleRates (initSpecifications specification) ! 5
     = \<lparr> rate = 7000000, sampleId = 24, downsampling = 3 \<rparr>
   \<and> rate (fixedSampleRates (initSpecifications specification) ! 5)
       / real (downsampling (fixedSampleRates (initSpecifications specification) ! 5)) \<notin> \<int>
   \<and> rate (fixedSampleRates (initSpecifications specification) ! 5)
       / real (downsampling (fixedSampleRates (initSpecifications specification) ! 5))
       \<notin> set rawSampleRates
   \<and> rate (fixedSampleRates (initSpecifications specification) ! 5)
       * real (downsampling (fixedSampleRates (initSpecifications specification) ! 5))
       = 21000000
   \<and> (21000000::real) \<notin> set rawSampleRates"
proof -
  have "(7000000::real) / 3 \<notin> \<int>"
    by (simp add: frac_eq_0_iff [symmetric] frac_def)
  then show ?thesis
    by (simp add: initSpecifications_def rawSampleRates_def)
qed

text \<open>
  Every other entry of the list does what C2 says: its rate divided by its downsampling
  factor is one of the raw sample rates, and so is its rate multiplied by that factor
  (the rate the samples are captured at before downsampling).
\<close>

lemma fixedSampleRates_other_entries_raw_rate:
  "list_all (\<lambda>e. rate e / real (downsampling e) \<in> set rawSampleRates
                  \<and> rate e * real (downsampling e) \<in> set rawSampleRates)
     (take 5 (fixedSampleRates (initSpecifications specification))
      @ drop 6 (fixedSampleRates (initSpecifications specification)))"
  by (simp add: initSpecifications_def rawSampleRates_def)


section \<open>Properties of the command registration\<close>

text \<open>
  C3, as the specification states it, fails on the calls of \<open>applyRequirements_\<close>: the
  start command is the fourth of the seven calls, before channel count, coupling and
  calibration frequency; it is neither the last call nor the first.
\<close>

theorem applyRequirements_start_last_counterexample:
  "applyRequirements logAddCommand []
     = [ ControlSetGain_CH1, ControlSetGain_CH2, ControlSetSamplerate, ControlStartSampling,
         ControlSetNumChannels, ControlSetCoupling, ControlSetCalFreq ]
   \<and> last (applyRequirements logAddCommand []) \<noteq> ControlStartSampling
   \<and> hd (applyRequirements logAddCommand []) \<noteq> ControlStartSampling
   \<and> precedes ControlStartSampling ControlSetNumChannels (applyRequirements logAddCommand [])"
  by (simp add: applyRequirements_def logAddCommand_def precedes_def)

text \<open>
  C3, amended. The \<open>addCommand\<close> calls of \<open>applyRequirements_\<close> come in ascending order of
  command code, 0xE0 to 0xE6: gain of channel 1, gain of channel 2, sample rate, start
  sampling, channel count, coupling, calibration frequency. So gain comes before sample
  rate, and sample rate before channel count, coupling and calibration frequency in this
  order, with start sampling fourth, between sample rate and channel count.
\<close>

theorem applyRequirements_order_by_command_code:
  "applyRequirements logAddCommand calls
     = calls @ [ ControlSetGain_CH1, ControlSetGain_CH2, ControlSetSamplerate,
                 ControlStartSampling, ControlSetNumChannels, ControlSetCoupling,
                 ControlSetCalFreq ]
   \<and> map commandCode (applyRequirements logAddCommand [])
       = [ 224, 225, 226, 227, 228, 229, 230 ]
   \<and> sorted_wrt (<) (map commandCode (applyRequirements logAddCommand []))"
  by (simp add: applyRequirements_def logAddCommand_def)

section \<open>Properties of the shutdown\<close>

lemmas waitForDso_eval =
  waitForDso_def roundToDouble_def binade_def ulp_def roundEven_def
  exponentUp.simps exponentDown.simps Let_def

text \<open>20000 samples at 100 S/s: the wait is twice the record time of 200 s.\<close>

lemma waitForDso_20000_at_100: "waitForDso 20000 100 = Some 400000"
  by (simp add: waitForDso_eval)

text \<open>20000 samples at 1 MS/s: twice the record time is 40 ms, the wait is the floor of 10 s.\<close>

lemma waitForDso_20000_at_1000000: "waitForDso 20000 1000000 = Some 10000"
  by (simp add: waitForDso_eval)

text \<open>
  The division is the machine's: one sample at the double nearest to 0.1 S/s gives 20000,
  the rounded quotient, where the real quotient lies just below 20000.
\<close>

lemma waitForDso_rounds_quotient:
  "waitForDso 1 (3602879701896397 / 36028797018963968) = Some 20000
   \<and> \<lfloor>2000 / (3602879701896397 / 36028797018963968 :: real)\<rfloor> = 19999"
  by (simp add: waitForDso_eval)

lemma waitForDso_at_least_10000: "waitForDso n r = Some wait \<Longrightarrow> 10000 \<le> wait"
  by (auto simp: waitForDso_def Let_def split: if_splits)

lemma cleanUp_Some:
  assumes "cleanUp n r locals = Some calls"
  obtains wait where "waitForDso n r = Some wait"
    and "calls = [ QuitSampling, Capturing_requestInterruption, Capturing_wait wait,
                   DsoControlThread_quit, DsoControlThread_wait wait,
                   PostProcessing_stop, PostProcessingThread_quit,
                   PostProcessingThread_wait 10000 ]
                 @ (if scopeDevice locals \<noteq> None then [ ScopeDevice_reset ] else [])
                 @ (if usbContext locals \<noteq> None then [ Libusb_exit ] else [])"
  using assms by (auto simp: cleanUp_def split: option.splits)


text \<open>
  Where the product does not wrap around the wait is what the claim says: 20000 samples
  at 100 S/s wait 400000 ms, twice the record time; and no wait is below 10000 ms.
\<close>

lemma cleanUp_wait_twice_record_time:
  "cleanUp 20000 100 \<lparr> demoMode = True, usbContext = None, scopeDevice = None, trace = [] \<rparr>
     = Some [ QuitSampling, Capturing_requestInterruption, Capturing_wait 400000,
              DsoControlThread_quit, DsoControlThread_wait 400000,
              PostProcessing_stop, PostProcessingThread_quit,
              PostProcessingThread_wait 10000 ]
   \<and> 2000 * real (20000::nat) / 100 = 400000"
  by (simp add: cleanUp_def waitForDso_20000_at_100)

text \<open>
  C6. In the shutdown the post-processing is stopped only after the acquisition:
  \<open>quitSampling\<close>, the interruption of and the wait for the capturing thread, and the quit
  of and the wait for the dso control thread each come before \<open>postProcessing.stop()\<close>
  and before the quit of and the wait for the post-processing thread.
\<close>

theorem cleanUp_acquisition_before_postProcessing:
  assumes "cleanUp n r locals = Some calls"
  shows "\<exists>wait.
           list_all (\<lambda>a. list_all (\<lambda>b. precedes a b calls)
                       [ PostProcessing_stop, PostProcessingThread_quit,
                         PostProcessingThread_wait 10000 ])
             [ QuitSampling, Capturing_requestInterruption, Capturing_wait wait,
               DsoControlThread_quit, DsoControlThread_wait wait ]"
proof -
  from assms obtain wait where
    "calls = [ QuitSampling, Capturing_requestInterruption, Capturing_wait wait,
               DsoControlThread_quit, DsoControlThread_wait wait,
               PostProcessing_stop, PostProcessingThread_quit,
               PostProcessingThread_wait 10000 ]
             @ (if scopeDevice locals \<noteq> None then [ ScopeDevice_reset ] else [])
             @ (if usbContext locals \<noteq> None then [ Libusb_exit ] else [])"
    by (rule cleanUp_Some)
  then have "list_all (\<lambda>a. list_all (\<lambda>b. precedes a b calls)
                         [ PostProcessing_stop, PostProcessingThread_quit,
                           PostProcessingThread_wait 10000 ])
               [ QuitSampling, Capturing_requestInterruption, Capturing_wait wait,
                 DsoControlThread_quit, DsoControlThread_wait wait ]"
    by (simp add: precedes_def)
  then show ?thesis ..
qed

theorem cleanUp_acquisition_before_postProcessing_witness:
  "cleanUp 20000 1000000
     \<lparr> demoMode = False, usbContext = Some Libusb_context,
       scopeDevice = Some \<lparr> isDemoDevice = False, connectDevice = True \<rparr>, trace = [] \<rparr>
     = Some [ QuitSampling, Capturing_requestInterruption, Capturing_wait 10000,
              DsoControlThread_quit, DsoControlThread_wait 10000,
              PostProcessing_stop, PostProcessingThread_quit,
              PostProcessingThread_wait 10000, ScopeDevice_reset, Libusb_exit ]
   \<and> precedes QuitSampling PostProcessing_stop
         [ QuitSampling, Capturing_requestInterruption, Capturing_wait 10000,
           DsoControlThread_quit, DsoControlThread_wait 10000,
           PostProcessing_stop, PostProcessingThread_quit,
           PostProcessingThread_wait 10000, ScopeDevice_reset, Libusb_exit ]
   \<and> precedes DsoControlThread_quit PostProcessingThread_quit
         [ QuitSampling, Capturing_requestInterruption, Capturing_wait 10000,
           DsoControlThread_quit, DsoControlThread_wait 10000,
           PostProcessing_stop, PostProcessingThread_quit,
           PostProcessingThread_wait 10000, ScopeDevice_reset, Libusb_exit ]"
proof -
  let ?locals = "\<lparr> demoMode = False, usbContext = Some Libusb_context,
                    scopeDevice = Some \<lparr> isDemoDevice = False, connectDevice = True \<rparr>,
                    trace = [] \<rparr>"
  let ?calls = "[ QuitSampling, Capturing_requestInterruption, Capturing_wait 10000,
                  DsoControlThread_quit, DsoControlThread_wait 10000,
                  PostProcessing_stop, PostProcessingThread_quit,
                  PostProcessingThread_wait 10000, ScopeDevice_reset, Libusb_exit ]"
  have h: "cleanUp 20000 1000000 ?locals = Some ?calls"
    by (simp add: cleanUp_def waitForDso_20000_at_1000000)
  from cleanUp_acquisition_before_postProcessing [OF h]
  have "precedes QuitSampling PostProcessing_stop ?calls"
    and "precedes DsoControlThread_quit PostProcessingThread_quit ?calls"
    by auto
  with h show ?thesis
    by blast
qed

section \<open>Properties of the device search\<close>

lemma findDevice_demo:
  assumes "demoModeOption env
           \<or> (libusb_init_error env = 0 \<and> selectedDevice env = Some device
               \<and> isDemoDevice device)"
  shows "findDevice env
           = Inr \<lparr> demoMode = True, usbContext = None,
                   scopeDevice = Some (if demoModeOption env then newScopeDevice env
                                       else device),
                   trace = (if demoModeOption env then [ NewScopeDevice ]
                            else [ Libusb_init ]
                                 @ (if \<not> intOption env then [ Libusb_setlocale ] else [])
                                 @ [ ShowSelectDeviceModal, Libusb_exit ]) \<rparr>"
  using assms by (auto simp: findDevice_def Let_def)

lemma findDevice_demoMode:
  assumes "findDevice env = Inr locals" and "demoMode locals"
  shows "demoModeOption env
           \<or> (libusb_init_error env = 0
               \<and> (\<exists>device. selectedDevice env = Some device \<and> isDemoDevice device))"
  using assms by (auto simp: findDevice_def Let_def split: if_splits option.splits)

lemma findDevice_selectedDemoEnvironment:
  "findDevice selectedDemoEnvironment
     = Inr \<lparr> demoMode = True, usbContext = None,
             scopeDevice = Some \<lparr> isDemoDevice = True, connectDevice = False \<rparr>,
             trace = [ Libusb_init, Libusb_setlocale, ShowSelectDeviceModal, Libusb_exit ] \<rparr>"
  by (simp add: findDevice_def selectedDemoEnvironment_def)

text \<open>
  C7. Without real hardware (demo mode asked for on the command line, or libusb started
  and the selection gave back a demo device) the device search does not end the program:
  \<open>main\<close> goes on in demo mode with the default-constructed scope device, or with the
  selected demo device, builds the whole control and processing chain and runs the GUI
  loop; what it returns is the status of the GUI loop, after the shutdown.
\<close>

theorem demo_mode_falls_back_and_proceeds:
  assumes "demoModeOption env
           \<or> (libusb_init_error env = 0 \<and> selectedDevice env = Some device
               \<and> isDemoDevice device)"
  shows "\<exists>locals.
           findDevice env = Inr locals
           \<and> demoMode locals
           \<and> scopeDevice locals
               = Some (if demoModeOption env then newScopeDevice env else device)
           \<and> trace (createAndRun locals)
               = trace locals
                 @ [ CreateDsoControl, CreateSettings, CreateExporters, CreatePostProcessing,
                     RegisterProcessor SamplesToExportRaw,
                     RegisterProcessor MathchannelGenerator,
                     RegisterProcessor SpectrumGenerator,
                     RegisterProcessor GraphGenerator,
                     CreateMainWindow, EnableSampling, PostProcessingThread_start,
                     DsoControlThread_start, Capturing_start, Exec ]
           \<and> main env
               = map_option (\<lambda>calls. (appStatus env, trace (createAndRun locals) @ calls))
                   (cleanUp (getSamplesize env) (getSamplerate env) (createAndRun locals))"
proof -
  from assms obtain locals where l: "findDevice env = Inr locals"
    and "demoMode locals"
    and "scopeDevice locals
           = Some (if demoModeOption env then newScopeDevice env else device)"
    by (simp add: findDevice_demo)
  moreover from l have "main env
      = map_option (\<lambda>calls. (appStatus env, trace (createAndRun locals) @ calls))
          (cleanUp (getSamplesize env) (getSamplerate env) (createAndRun locals))"
    by (simp add: main_def split: option.splits)
  ultimately show ?thesis
    by (simp add: createAndRun_def)
qed

lemma shutdown_selectedDemoEnvironment:
  "getSamplesize selectedDemoEnvironment = 20000"
  "getSamplerate selectedDemoEnvironment = 100"
  "appStatus selectedDemoEnvironment = 0"
  by (simp_all add: selectedDemoEnvironment_def)

lemma main_selectedDemoEnvironment:
  "main selectedDemoEnvironment
     = Some (0, [ Libusb_init, Libusb_setlocale, ShowSelectDeviceModal, Libusb_exit,
                  CreateDsoControl, CreateSettings, CreateExporters, CreatePostProcessing,
                  RegisterProcessor SamplesToExportRaw,
                  RegisterProcessor MathchannelGenerator,
                  RegisterProcessor SpectrumGenerator,
                  RegisterProcessor GraphGenerator,
                  CreateMainWindow, EnableSampling, PostProcessingThread_start,
                  DsoControlThread_start, Capturing_start, Exec,
                  QuitSampling, Capturing_requestInterruption, Capturing_wait 400000,
                  DsoControlThread_quit, DsoControlThread_wait 400000,
                  PostProcessing_stop, PostProcessingThread_quit,
                  PostProcessingThread_wait 10000, ScopeDevice_reset ])"
  by (simp add: main_def findDevice_selectedDemoEnvironment shutdown_selectedDemoEnvironment
      createAndRun_def cleanUp_def waitForDso_20000_at_100)

theorem demo_mode_falls_back_and_proceeds_witness:
  "(demoModeOption selectedDemoEnvironment
    \<or> (libusb_init_error selectedDemoEnvironment = 0
        \<and> selectedDevice selectedDemoEnvironment
            = Some \<lparr> isDemoDevice = True, connectDevice = False \<rparr>
        \<and> isDemoDevice \<lparr> isDemoDevice = True, connectDevice = False \<rparr>))
   \<and> main selectedDemoEnvironment
       = Some (0, [ Libusb_init, Libusb_setlocale, ShowSelectDeviceModal, Libusb_exit,
                    CreateDsoControl, CreateSettings, CreateExporters, CreatePostProcessing,
                    RegisterProcessor SamplesToExportRaw,
                    RegisterProcessor MathchannelGenerator,
                    RegisterProcessor SpectrumGenerator,
                    RegisterProcessor GraphGenerator,
                    CreateMainWindow, EnableSampling, PostProcessingThread_start,
                    DsoControlThread_start, Capturing_start, Exec,
                    QuitSampling, Capturing_requestInterruption, Capturing_wait 400000,
                    DsoControlThread_quit, DsoControlThread_wait 400000,
                    PostProcessing_stop, PostProcessingThread_quit,
                    PostProcessingThread_wait 10000, ScopeDevice_reset ])"
proof -
  let ?device = "\<lparr> isDemoDevice = True, connectDevice = False \<rparr>"
  have h: "demoModeOption selectedDemoEnvironment
    \<or> (libusb_init_error selectedDemoEnvironment = 0
        \<and> selectedDevice selectedDemoEnvironment = Some ?device
        \<and> isDemoDevice ?device)"
    by (simp add: selectedDemoEnvironment_def)
  from demo_mode_falls_back_and_proceeds [OF h]
  obtain locals where l: "findDevice selectedDemoEnvironment = Inr locals"
    and m: "main selectedDemoEnvironment
       = map_option (\<lambda>calls. (appStatus selectedDemoEnvironment, trace (createAndRun locals) @ calls))
           (cleanUp (getSamplesize selectedDemoEnvironment)
              (getSamplerate selectedDemoEnvironment) (createAndRun locals))"
    by blast
  from l have "locals = \<lparr> demoMode = True, usbContext = None,
             scopeDevice = Some ?device,
             trace = [ Libusb_init, Libusb_setlocale, ShowSelectDeviceModal, Libusb_exit ] \<rparr>"
    by (simp add: findDevice_selectedDemoEnvironment)
  with m have "main selectedDemoEnvironment
       = Some (0, [ Libusb_init, Libusb_setlocale, ShowSelectDeviceModal, Libusb_exit,
                    CreateDsoControl, CreateSettings, CreateExporters, CreatePostProcessing,
                    RegisterProcessor SamplesToExportRaw,
                    RegisterProcessor MathchannelGenerator,
                    RegisterProcessor SpectrumGenerator,
                    RegisterProcessor GraphGenerator,
                    CreateMainWindow, EnableSampling, PostProcessingThread_start,
                    DsoControlThread_start, Capturing_start, Exec,
                    QuitSampling, Capturing_requestInterruption, Capturing_wait 400000,
                    DsoControlThread_quit, DsoControlThread_wait 400000,
                    PostProcessing_stop, PostProcessingThread_quit,
                    PostProcessingThread_wait 10000, ScopeDevice_reset ])"
    by (simp add: shutdown_selectedDemoEnvironment createAndRun_def cleanUp_def
        waitForDso_20000_at_100)
  with h show ?thesis
    by blast
qed


text \<open>
  C9. When \<open>main\<close> goes on in demo mode, no libusb context is left: \<open>context\<close> is null,
  and either \<open>libusb_init\<close> was never called (demo mode from the command line: the only
  call so far creates the scope device) or \<open>libusb_exit\<close> followed the device selection
  at once. Nothing that \<open>main\<close> does after the device search is a call to the USB library:
  the \<open>libusb_exit\<close> of the final clean-up is skipped.
\<close>

theorem demo_mode_leaves_no_libusb_context:
  assumes "findDevice env = Inr locals" and "demoMode locals"
  shows "usbContext locals = None
         \<and> (demoModeOption env \<longrightarrow> trace locals = [ NewScopeDevice ])
         \<and> (\<not> demoModeOption env \<longrightarrow>
               trace locals = [ Libusb_init ]
                              @ (if \<not> intOption env then [ Libusb_setlocale ] else [])
                              @ [ ShowSelectDeviceModal, Libusb_exit ])
         \<and> (\<forall>status calls. main env = Some (status, calls) \<longrightarrow>
               take (length (trace locals)) calls = trace locals
               \<and> filter libusbCall (drop (length (trace locals)) calls) = [])"
proof -
  from assms findDevice_demoMode obtain device where
    "demoModeOption env
       \<or> (libusb_init_error env = 0 \<and> selectedDevice env = Some device \<and> isDemoDevice device)"
    by blast
  then have "findDevice env
           = Inr \<lparr> demoMode = True, usbContext = None,
                   scopeDevice = Some (if demoModeOption env then newScopeDevice env
                                       else device),
                   trace = (if demoModeOption env then [ NewScopeDevice ]
                            else [ Libusb_init ]
                                 @ (if \<not> intOption env then [ Libusb_setlocale ] else [])
                                 @ [ ShowSelectDeviceModal, Libusb_exit ]) \<rparr>"
    by (rule findDevice_demo)
  with assms(1) have l: "locals = \<lparr> demoMode = True, usbContext = None,
                   scopeDevice = Some (if demoModeOption env then newScopeDevice env
                                       else device),
                   trace = (if demoModeOption env then [ NewScopeDevice ]
                            else [ Libusb_init ]
                                 @ (if \<not> intOption env then [ Libusb_setlocale ] else [])
                                 @ [ ShowSelectDeviceModal, Libusb_exit ]) \<rparr>"
    by simp
  have ctx: "usbContext locals = None" and sd: "scopeDevice locals \<noteq> None"
    by (simp_all add: l)
  have tr: "(demoModeOption env \<longrightarrow> trace locals = [ NewScopeDevice ])
         \<and> (\<not> demoModeOption env \<longrightarrow>
               trace locals = [ Libusb_init ]
                              @ (if \<not> intOption env then [ Libusb_setlocale ] else [])
                              @ [ ShowSelectDeviceModal, Libusb_exit ])"
    by (simp add: l)
  have "take (length (trace locals)) calls = trace locals
               \<and> filter libusbCall (drop (length (trace locals)) calls) = []"
    if "main env = Some (status, calls)" for status calls
    using that assms(1) ctx sd
    by (auto simp: main_def cleanUp_def createAndRun_def split: option.splits)
  with ctx tr show ?thesis
    by blast
qed

theorem demo_mode_leaves_no_libusb_context_witness:
  "findDevice selectedDemoEnvironment
     = Inr \<lparr> demoMode = True, usbContext = None,
             scopeDevice = Some \<lparr> isDemoDevice = True, connectDevice = False \<rparr>,
             trace = [ Libusb_init, Libusb_setlocale, ShowSelectDeviceModal, Libusb_exit ] \<rparr>
   \<and> demoMode \<lparr> demoMode = True, usbContext = None,
             scopeDevice = Some \<lparr> isDemoDevice = True, connectDevice = False \<rparr>,
             trace = [ Libusb_init, Libusb_setlocale, ShowSelectDeviceModal, Libusb_exit ] \<rparr>
   \<and> \<not> demoModeOption selectedDemoEnvironment
   \<and> (\<exists>calls. main selectedDemoEnvironment = Some (0, calls)
        \<and> take 4 calls = [ Libusb_init, Libusb_setlocale, ShowSelectDeviceModal, Libusb_exit ]
        \<and> filter libusbCall (drop 4 calls) = [])"
proof -
  let ?locals = "\<lparr> demoMode = True, usbContext = None,
             scopeDevice = Some \<lparr> isDemoDevice = True, connectDevice = False \<rparr>,
             trace = [ Libusb_init, Libusb_setlocale, ShowSelectDeviceModal, Libusb_exit ] \<rparr>"
  have h1: "findDevice selectedDemoEnvironment = Inr ?locals"
    by (rule findDevice_selectedDemoEnvironment)
  have h2: "demoMode ?locals"
    by simp
  have h3: "\<not> demoModeOption selectedDemoEnvironment"
    by (simp add: selectedDemoEnvironment_def)
  obtain calls where m: "main selectedDemoEnvironment = Some (0, calls)"
    by (simp add: main_selectedDemoEnvironment)
  from demo_mode_leaves_no_libusb_context [OF h1 h2]
  have "\<forall>status calls. main selectedDemoEnvironment = Some (status, calls) \<longrightarrow>
          take (length (trace ?locals)) calls = trace ?locals
          \<and> filter libusbCall (drop (length (trace ?locals)) calls) = []"
    by blast
  with m have "take (length (trace ?locals)) calls = trace ?locals
          \<and> filter libusbCall (drop (length (trace ?locals)) calls) = []"
    by blast
  moreover have "length (trace ?locals) = 4"
    and "trace ?locals = [ Libusb_init, Libusb_setlocale, ShowSelectDeviceModal, Libusb_exit ]"
    by simp_all
  ultimately
  have "take 4 calls = [ Libusb_init, Libusb_setlocale, ShowSelectDeviceModal, Libusb_exit ]
        \<and> filter libusbCall (drop 4 calls) = []"
    by (simp only:)
  with h1 h2 h3 m show ?thesis
    by blast
qed


end
